theory Spec2Isabelle
  imports Complex_Main "HOL-Library.Word" "HOL-Library.Log_Nat"
begin

unbundle bit_operations_syntax

section \<open>The data model of gfx/gfx_display.h\<close>

text \<open>
  The header declares the display layer of the menu: three macros on colours, the
  update-pending macro, the enums, the driver table entry, the draw descriptor and the
  display state. The enums become datatypes, the structs records. A pointer that may be
  NULL is an \<open>option\<close>; an opaque handle (\<^verbatim>\<open>void *\<close>, \<^verbatim>\<open>uintptr_t\<close>)
  is a natural number; \<^verbatim>\<open>unsigned\<close> and \<^verbatim>\<open>uint32_t\<close> are 32-bit words; a
  finite \<^verbatim>\<open>float\<close> is the rational number it stands for.
\<close>

type_synonym u32 = "32 word"
type_synonym float = rat

datatype menu_driver_id_type =
    MENU_DRIVER_ID_UNKNOWN
  | MENU_DRIVER_ID_RGUI
  | MENU_DRIVER_ID_OZONE
  | MENU_DRIVER_ID_GLUI
  | MENU_DRIVER_ID_XMB
  | MENU_DRIVER_ID_XUI
  | MENU_DRIVER_ID_STRIPES

datatype gfx_display_prim_type =
    GFX_DISPLAY_PRIM_NONE
  | GFX_DISPLAY_PRIM_TRIANGLESTRIP
  | GFX_DISPLAY_PRIM_TRIANGLES

datatype gfx_display_driver_type =
    GFX_VIDEO_DRIVER_GENERIC
  | GFX_VIDEO_DRIVER_OPENGL
  | GFX_VIDEO_DRIVER_OPENGL1
  | GFX_VIDEO_DRIVER_OPENGL_CORE
  | GFX_VIDEO_DRIVER_VULKAN
  | GFX_VIDEO_DRIVER_METAL
  | GFX_VIDEO_DRIVER_DIRECT3D8
  | GFX_VIDEO_DRIVER_DIRECT3D9
  | GFX_VIDEO_DRIVER_DIRECT3D10
  | GFX_VIDEO_DRIVER_DIRECT3D11
  | GFX_VIDEO_DRIVER_DIRECT3D12
  | GFX_VIDEO_DRIVER_VITA2D
  | GFX_VIDEO_DRIVER_CTR
  | GFX_VIDEO_DRIVER_WIIU
  | GFX_VIDEO_DRIVER_GDI
  | GFX_VIDEO_DRIVER_SWITCH

text \<open>
  \<^verbatim>\<open>math_matrix_4x4\<close> comes from \<^verbatim>\<open>gfx/math/matrix_4x4.h\<close>, which is not among
  the sources: sixteen floats. Here it is four rows of four entries.
\<close>

type_synonym vec4 = "real \<times> real \<times> real \<times> real"
type_synonym math_matrix_4x4 = "vec4 \<times> vec4 \<times> vec4 \<times> vec4"

text \<open>
  \<^verbatim>\<open>struct gfx_display_ctx_driver\<close>. The members that hand work to the backend
  (\<^verbatim>\<open>draw\<close>, \<^verbatim>\<open>draw_pipeline\<close>, \<^verbatim>\<open>blend_begin\<close>, \<^verbatim>\<open>blend_end\<close>,
  \<^verbatim>\<open>font_init_first\<close>, \<^verbatim>\<open>scissor_begin\<close>, \<^verbatim>\<open>scissor_end\<close>) are calls into
  it and not fields. The getters and the plain members are fields; the member \<^verbatim>\<open>type\<close> is the field
  \<open>driver_type\<close>. \<^verbatim>\<open>get_default_mvp\<close> returns a pointer, so it may return NULL.
\<close>

record gfx_display_ctx_driver =
  get_default_mvp :: "nat \<Rightarrow> math_matrix_4x4 option"
  get_default_vertices :: "float list"
  get_default_tex_coords :: "float list"
  driver_type :: gfx_display_driver_type
  ident :: string
  handles_transform :: bool

text \<open>
  \<^verbatim>\<open>struct gfx_display_ctx_draw\<close>, the draw descriptor, member by member. Its
  members have short names (\<^verbatim>\<open>x\<close>, \<^verbatim>\<open>y\<close>, \<^verbatim>\<open>color\<close>, ...), which a record
  would turn into constants of those names; each field is the member's name after
  \<open>draw_\<close>.
\<close>

record gfx_display_ctx_draw =
  draw_color :: "float list"
  draw_vertex :: "float list option"
  draw_tex_coord :: "float list option"
  draw_backend_data :: nat
  draw_coords :: nat
  draw_matrix_data :: "math_matrix_4x4 option"
  draw_texture :: nat
  draw_vertex_count :: nat
  draw_backend_data_size :: nat
  draw_width :: u32
  draw_height :: u32
  draw_pipeline_id :: u32
  draw_x :: float
  draw_y :: float
  draw_rotation :: float
  draw_scale_factor :: float
  draw_prim_type :: gfx_display_prim_type
  draw_pipeline_active :: bool

text \<open>
  \<^verbatim>\<open>struct gfx_display\<close>, the display state. \<^verbatim>\<open>video_coord_array_t\<close> is declared
  outside the header, so the type of \<^verbatim>\<open>dispca\<close> is a parameter.
\<close>

record 'ca gfx_display =
  dispctx :: "gfx_display_ctx_driver option"
  dispca :: 'ca
  framebuf_pitch :: nat
  framebuf_width :: u32
  framebuf_height :: u32
  header_height :: u32
  menu_driver_id :: menu_driver_id_type
  has_windowed :: bool
  msg_force :: bool
  framebuf_dirty :: bool

section \<open>Single-precision arithmetic\<close>

text \<open>
  The colour macros compute in \<^verbatim>\<open>float\<close>: their literals are \<^verbatim>\<open>1.0f\<close> and
  \<^verbatim>\<open>255.0f\<close>. A finite \<^verbatim>\<open>float\<close> is a rational number, and an arithmetic operation
  on floats is the exact operation followed by rounding to the nearest number with a
  significand of 24 bits, ties going to the even significand (IEEE 754 binary32, each
  operation evaluated in the precision of its type). The exponent range is left out:
  the values the macros compute are 0 or lie between 1/512 and 1, far from overflow
  and from the subnormal numbers.
\<close>

text \<open>
  The binary exponent of a positive rational \<open>r\<close>: the integer \<open>e\<close> for which \<open>r\<close> lies
  between \<open>2 powi e\<close> (included) and \<open>2 powi (e + 1)\<close> (excluded).
\<close>

definition ilog2 :: "rat \<Rightarrow> int" where
  "ilog2 r = (let (a, b) = quotient_of r; d = bitlen a - bitlen b
              in if r < 2 powi d then d - 1 else d)"

text \<open>Rounding to the nearest integer, a tie going to the even one.\<close>

definition round_to_even :: "rat \<Rightarrow> int" where
  "round_to_even r = (let n = \<lfloor>r\<rfloor>; f = r - of_int n
                      in if f < 1 / 2 then n
                         else if 1 / 2 < f then n + 1
                         else if even n then n else n + 1)"

definition f32_round :: "rat \<Rightarrow> float" where
  "f32_round r = (if r = 0 then 0
                  else let q = 2 powi (ilog2 \<bar>r\<bar> - 23)
                       in of_int (round_to_even (r / q)) * q)"

definition f32_mul :: "float \<Rightarrow> float \<Rightarrow> float" where
  "f32_mul a b = f32_round (a * b)"

definition f32_div :: "float \<Rightarrow> float \<Rightarrow> float" where
  "f32_div a b = f32_round (a / b)"

section \<open>The colour macros\<close>

text \<open>
  \<^verbatim>\<open>#define COLOR_TEXT_ALPHA(color, alpha) (color & 0xFFFFFF00) | alpha\<close>
  on 32-bit unsigned operands.
\<close>

definition COLOR_TEXT_ALPHA :: "u32 \<Rightarrow> u32 \<Rightarrow> u32" where
  "COLOR_TEXT_ALPHA color alpha = (color AND 0xFFFFFF00) OR alpha"

text \<open>
  \<^verbatim>\<open>#define HEX_R(hex) ((hex >> 16) & 0xFF) * (1.0f / 255.0f)\<close>
  \<^verbatim>\<open>#define HEX_G(hex) ((hex >> 8 ) & 0xFF) * (1.0f / 255.0f)\<close>
  \<^verbatim>\<open>#define HEX_B(hex) ((hex >> 0 ) & 0xFF) * (1.0f / 255.0f)\<close>

  The left operand is an integer of at most 255, which the multiplication converts to
  \<^verbatim>\<open>float\<close> without rounding, as the literals \<^verbatim>\<open>1.0f\<close> and \<^verbatim>\<open>255.0f\<close> are read
  without rounding. The division and the multiplication are the float ones.
\<close>

definition HEX_R :: "u32 \<Rightarrow> float" where
  "HEX_R hex = f32_mul (of_nat (unat (drop_bit 16 hex AND 0xFF))) (f32_div 1 255)"

definition HEX_G :: "u32 \<Rightarrow> float" where
  "HEX_G hex = f32_mul (of_nat (unat (drop_bit 8 hex AND 0xFF))) (f32_div 1 255)"

definition HEX_B :: "u32 \<Rightarrow> float" where
  "HEX_B hex = f32_mul (of_nat (unat (drop_bit 0 hex AND 0xFF))) (f32_div 1 255)"

text \<open>
  \<^verbatim>\<open>#define COLOR_HEX_TO_FLOAT(hex, alpha) {
     HEX_R(hex), HEX_G(hex), HEX_B(hex), alpha,
     HEX_R(hex), HEX_G(hex), HEX_B(hex), alpha,
     HEX_R(hex), HEX_G(hex), HEX_B(hex), alpha,
     HEX_R(hex), HEX_G(hex), HEX_B(hex), alpha }\<close>
  initialises an array of sixteen floats.
\<close>

definition COLOR_HEX_TO_FLOAT :: "u32 \<Rightarrow> float \<Rightarrow> float list" where
  "COLOR_HEX_TO_FLOAT hex alpha =
     [HEX_R hex, HEX_G hex, HEX_B hex, alpha,
      HEX_R hex, HEX_G hex, HEX_B hex, alpha,
      HEX_R hex, HEX_G hex, HEX_B hex, alpha,
      HEX_R hex, HEX_G hex, HEX_B hex, alpha]"

text \<open>
  \<^verbatim>\<open>#define gfx_display_set_alpha(color, alpha_value)
     (color[3] = color[7] = color[11] = color[15] = (alpha_value))\<close>

  The chain assigns from the right: element 15 first, element 3 last. The model returns
  the array after the four stores. The macro does not check the length of
  \<^verbatim>\<open>color\<close>; on an array shorter than sixteen the C is undefined, and the model
  leaves the missing elements out.
\<close>

definition gfx_display_set_alpha :: "float list \<Rightarrow> float \<Rightarrow> float list" where
  "gfx_display_set_alpha color alpha_value =
     color[15 := alpha_value, 11 := alpha_value, 7 := alpha_value, 3 := alpha_value]"

section \<open>The update-pending gate\<close>

text \<open>
  \<^verbatim>\<open>#define GFX_DISPLAY_GET_UPDATE_PENDING(p_anim, p_disp)
     (ANIM_IS_ACTIVE(p_anim) || p_disp->framebuf_dirty)\<close>

  \<^verbatim>\<open>ANIM_IS_ACTIVE\<close> is a macro of the animation subsystem and is not defined in the
  header: it is the parameter \<open>ANIM_IS_ACTIVE\<close>, a reading of the animation state. The
  macro is an expression evaluated on the display state behind \<open>p_disp\<close>; its model
  returns the value of the expression together with the display state after the
  evaluation. \<^verbatim>\<open>||\<close> evaluates its right operand only when the left one is false.
\<close>

definition GFX_DISPLAY_GET_UPDATE_PENDING ::
  "('anim \<Rightarrow> bool) \<Rightarrow> 'anim \<Rightarrow> 'ca gfx_display \<Rightarrow> bool \<times> 'ca gfx_display" where
  "GFX_DISPLAY_GET_UPDATE_PENDING ANIM_IS_ACTIVE p_anim p_disp =
     (if ANIM_IS_ACTIVE p_anim then (True, p_disp)
      else (framebuf_dirty p_disp, p_disp))"

section \<open>Driver selection\<close>

text \<open>
  The header declares
  \<^verbatim>\<open>bool gfx_display_init_first_driver(gfx_display_t *p_disp, bool video_is_threaded)\<close>;
  its body, the table of drivers it walks and the test it applies to each driver are not
  among the sources. Section 4.1 of the spec describes it: the function ``iterates the
  list in a fixed priority order, invoking each candidate's own backend-specific probe
  until one initializes successfully; binds it into DisplayState and returns
  success/failure. Only one driver may be bound at a time; re-initialization first
  unbinds the previous one.'' The table is the parameter \<open>drivers\<close>, in priority
  order, and the probe of one candidate is the parameter \<open>probe\<close>.
\<close>

text \<open>
  Modelled from the spec: the walk of \<^verbatim>\<open>gfx_display_init_first_driver\<close> over the
  driver table (not in the sources), which stops at the first driver whose probe
  succeeds.
\<close>

fun first_compatible ::
  "(gfx_display_ctx_driver \<Rightarrow> bool \<Rightarrow> bool) \<Rightarrow> bool \<Rightarrow> gfx_display_ctx_driver list
    \<Rightarrow> gfx_display_ctx_driver option" where
  "first_compatible probe video_is_threaded [] = None"
| "first_compatible probe video_is_threaded (drv # rest) =
     (if probe drv video_is_threaded then Some drv
      else first_compatible probe video_is_threaded rest)"

text \<open>
  Modelled from the spec: \<^verbatim>\<open>gfx_display_init_first_driver\<close>, whose body is not in the
  sources. The previous driver is unbound first; the first driver of the table that
  passes its probe is bound and the result is success, and when there is none the
  result is failure. The model returns the result and the display state after the call.
\<close>

definition gfx_display_init_first_driver ::
  "gfx_display_ctx_driver list \<Rightarrow> (gfx_display_ctx_driver \<Rightarrow> bool \<Rightarrow> bool)
    \<Rightarrow> 'ca gfx_display \<Rightarrow> bool \<Rightarrow> bool \<times> 'ca gfx_display" where
  "gfx_display_init_first_driver drivers probe p_disp video_is_threaded =
     (let unbound = p_disp\<lparr>dispctx := None\<rparr>
      in case first_compatible probe video_is_threaded drivers of
           None \<Rightarrow> (False, unbound)
         | Some drv \<Rightarrow> (True, unbound\<lparr>dispctx := Some drv\<rparr>))"

section \<open>The rotation matrix\<close>

text \<open>
  \<^verbatim>\<open>struct gfx_display_ctx_rotate_draw\<close>. \<^verbatim>\<open>matrix\<close> points to a matrix the caller
  owns; the field holds the contents of that matrix.
\<close>

record gfx_display_ctx_rotate_draw =
  matrix :: math_matrix_4x4
  rotation :: float
  scale_x :: float
  scale_y :: float
  scale_z :: float
  scale_enable :: bool

text \<open>
  The matrix operations come from \<^verbatim>\<open>gfx/math/matrix_4x4.h\<close>, which is not among the
  sources. The entries of a matrix are real numbers here: the cosine and the sine of an
  angle are taken as they are, not rounded to a float.
\<close>

text \<open>
  Modelled from the spec: \<^verbatim>\<open>matrix_4x4_rotate_z\<close> of the missing
  \<^verbatim>\<open>matrix_4x4.h\<close>, the rotation about the Z axis (section 4.5: ``only Z-axis
  rotation is supported'').
\<close>

definition matrix_4x4_rotate_z :: "real \<Rightarrow> math_matrix_4x4" where
  "matrix_4x4_rotate_z radians =
     ((cos radians, - sin radians, 0, 0),
      (sin radians, cos radians, 0, 0),
      (0, 0, 1, 0),
      (0, 0, 0, 1))"

text \<open>
  Modelled from the spec: \<^verbatim>\<open>matrix_4x4_scale\<close> of the missing \<^verbatim>\<open>matrix_4x4.h\<close>,
  the scaling by the ``independent x/y/z scale factors'' of section 3.
\<close>

definition matrix_4x4_scale :: "real \<Rightarrow> real \<Rightarrow> real \<Rightarrow> math_matrix_4x4" where
  "matrix_4x4_scale sx sy sz =
     ((sx, 0, 0, 0),
      (0, sy, 0, 0),
      (0, 0, sz, 0),
      (0, 0, 0, 1))"

text \<open>
  Modelled from the spec: \<^verbatim>\<open>matrix_4x4_multiply\<close> of the missing \<^verbatim>\<open>matrix_4x4.h\<close>,
  the composition of two transforms (section 4.5: ``composed''): the product of two
  matrices, each row of the left one taken with each column of the right one.
\<close>

fun dot4 :: "vec4 \<Rightarrow> vec4 \<Rightarrow> real" where
  "dot4 (a0, a1, a2, a3) (b0, b1, b2, b3) = a0 * b0 + a1 * b1 + a2 * b2 + a3 * b3"

fun columns :: "math_matrix_4x4 \<Rightarrow> math_matrix_4x4" where
  "columns ((a0, a1, a2, a3), (b0, b1, b2, b3), (c0, c1, c2, c3), (d0, d1, d2, d3)) =
     ((a0, b0, c0, d0), (a1, b1, c1, d1), (a2, b2, c2, d2), (a3, b3, c3, d3))"

fun row_by_columns :: "vec4 \<Rightarrow> math_matrix_4x4 \<Rightarrow> vec4" where
  "row_by_columns r (c0, c1, c2, c3) = (dot4 r c0, dot4 r c1, dot4 r c2, dot4 r c3)"

fun matrix_4x4_multiply :: "math_matrix_4x4 \<Rightarrow> math_matrix_4x4 \<Rightarrow> math_matrix_4x4" where
  "matrix_4x4_multiply (r0, r1, r2, r3) b =
     (row_by_columns r0 (columns b), row_by_columns r1 (columns b),
      row_by_columns r2 (columns b), row_by_columns r3 (columns b))"

text \<open>
  Modelled from the spec: \<^verbatim>\<open>gfx_display_rotate_z\<close>, declared in the header
  (\<^verbatim>\<open>void gfx_display_rotate_z(gfx_display_t *p_disp,
  gfx_display_ctx_rotate_draw_t *draw, void *data)\<close>) with its body not among the
  sources. Section 4.5 of the spec: ``given a rotation angle and optional non-uniform
  scale factors, produces a composed rotation-then-scale 4x4 matrix, written into the
  caller-owned matrix slot, replacing its prior contents''; section 8 names the matrix
  the rotation is composed with, the default of the bound driver (``the
  identity-composed default''), which the driver's \<^verbatim>\<open>get_default_mvp\<close> supplies.
  Without a bound driver, or when the driver returns no default, there is nothing to
  compose with and the call changes nothing (section 3: ``all primitive operations
  assume a valid binding or are no-ops'').
\<close>

definition gfx_display_rotate_z ::
  "'ca gfx_display \<Rightarrow> gfx_display_ctx_rotate_draw \<Rightarrow> nat \<Rightarrow> gfx_display_ctx_rotate_draw" where
  "gfx_display_rotate_z p_disp draw data =
     (case dispctx p_disp of
        None \<Rightarrow> draw
      | Some drv \<Rightarrow>
          (case get_default_mvp drv data of
             None \<Rightarrow> draw
           | Some b \<Rightarrow>
               (let rotated = matrix_4x4_multiply
                                (matrix_4x4_rotate_z (of_rat (rotation draw))) b
                in if scale_enable draw
                   then draw\<lparr>matrix :=
                          matrix_4x4_multiply
                            (matrix_4x4_scale (of_rat (scale_x draw)) (of_rat (scale_y draw))
                               (of_rat (scale_z draw)))
                            rotated\<rparr>
                   else draw\<lparr>matrix := rotated\<rparr>)))"

section \<open>The DPI scale\<close>

text \<open>
  Rounding to a significand of \<open>p\<close> bits, as \<open>f32_round\<close> does for 24: \<^verbatim>\<open>double\<close>
  has 53.
\<close>

definition fp_round :: "nat \<Rightarrow> rat \<Rightarrow> rat" where
  "fp_round p r = (if r = 0 then 0
                   else let q = 2 powi (ilog2 \<bar>r\<bar> - (int p - 1))
                        in of_int (round_to_even (r / q)) * q)"

text \<open>
  \<^verbatim>\<open>#define DIAGONAL_PIXELS_1080P 2202.90717008229831581901\<close>, with the header's
  comment ``Note: This is a double, so no suffix'': the constant is the double nearest
  to the decimal.
\<close>

definition DIAGONAL_PIXELS_1080P :: rat where
  "DIAGONAL_PIXELS_1080P =
     fp_round 53 (220290717008229831581901 / 100000000000000000000)"

text \<open>
  The integer square root, two bits of the argument for each bit of the root: the
  largest integer whose square is at most \<open>n\<close>.
\<close>

function isqrt :: "int \<Rightarrow> int" where
  "isqrt n = (if n < 4 then (if n \<le> 0 then 0 else 1)
              else let r = 2 * isqrt (n div 4)
                   in if (r + 1) * (r + 1) \<le> n then r + 1 else r)"
  by pat_completeness auto
termination
  by (relation "measure nat") auto

declare isqrt.simps [simp del]

text \<open>
  Modelled from the spec: the square root of the ``Pythagorean combination of width and
  height'' (section 4.5), the \<^verbatim>\<open>sqrt\<close> of the C library in a body that is not in the
  sources. Its argument is an integer. The result is the number with a significand of
  \<open>p\<close> bits that is nearest to the square root, a tie going to the even significand:
  \<open>e\<close> is the binary exponent of the root, \<open>q\<close> the unit of the last place, \<open>m\<close> the
  root in such units rounded down, and the root lies below or above \<open>m + 1 / 2\<close> as
  its square \<open>s\<close> lies below or above the square of \<open>m + 1 / 2\<close>.
\<close>

definition fp_sqrt :: "nat \<Rightarrow> int \<Rightarrow> rat" where
  "fp_sqrt p n =
     (if n \<le> 0 then 0
      else let e = bitlen (isqrt n) - 1;
               q = 2 powi (e - (int p - 1));
               s = of_int n / (q * q);
               m = isqrt \<lfloor>s\<rfloor>;
               mid = (of_int m + 1 / 2) * (of_int m + 1 / 2)
           in of_int (if s < mid then m
                      else if mid < s then m + 1
                      else if even m then m else m + 1) * q)"

text \<open>
  Modelled from the spec: \<^verbatim>\<open>gfx_display_get_dpi_scale_internal\<close>, declared in the
  header (\<^verbatim>\<open>float gfx_display_get_dpi_scale_internal(unsigned width, unsigned
  height)\<close>) with its body not among the sources. Section 4.5 of the spec: ``compute
  the display's diagonal pixel count via Pythagorean combination of width and height;
  divide by a fixed reference diagonal corresponding to a canonical 1080p display
  (2202.90717008229831581901 px)''. The physical DPI hint of that section is folded in
  ``when available, else fall back to the pixel-diagonal ratio alone''; this function
  receives the width and the height and nothing of the platform, and is the ratio alone.

  The sum of the squares is computed on \<^verbatim>\<open>unsigned\<close>, as the parameters are. The spec
  does not say in which precision the root is kept and the division made, so both are
  parameters: \<open>sqrt_prec\<close> and \<open>div_prec\<close>, 24 for \<^verbatim>\<open>float\<close> and 53 for \<^verbatim>\<open>double\<close>.
  The operands of the division are converted to its precision, and the quotient to the
  \<^verbatim>\<open>float\<close> that the function returns.
\<close>

definition gfx_display_get_dpi_scale_internal :: "nat \<Rightarrow> nat \<Rightarrow> u32 \<Rightarrow> u32 \<Rightarrow> float" where
  "gfx_display_get_dpi_scale_internal sqrt_prec div_prec width height =
     (let diagonal_pixels = fp_sqrt sqrt_prec (uint (width * width + height * height))
      in f32_round (fp_round div_prec
           (fp_round div_prec diagonal_pixels / fp_round div_prec DIAGONAL_PIXELS_1080P)))"

section \<open>Properties of the macros\<close>

subsection \<open>COLOR_TEXT_ALPHA\<close>

lemma rgb_mask_eq: "(0xFFFFFF00 :: u32) = NOT (mask 8)"
  by (simp add: mask_eq_exp_minus_1)

lemma alpha_mask_eq: "(0xFF :: u32) = mask 8"
  by (simp add: mask_eq_exp_minus_1)

lemma alpha_bits_low:
  fixes a :: u32
  assumes "a \<le> 0xFF" and "bit a n"
  shows "n < 8"
proof -
  from \<open>a \<le> 0xFF\<close> have "uint a < 2 ^ 8"
    by (simp add: word_le_def)
  then have "a AND mask 8 = a"
    by (simp add: mask_eq_iff)
  with \<open>bit a n\<close> have "bit (a AND mask 8) n"
    by simp
  then show ?thesis
    by (simp add: bit_and_iff bit_mask_iff)
qed

lemma bit_COLOR_TEXT_ALPHA:
  "bit (COLOR_TEXT_ALPHA c a) n \<longleftrightarrow> (bit c n \<and> 8 \<le> n) \<or> bit a n"
  by (auto simp add: COLOR_TEXT_ALPHA_def rgb_mask_eq bit_or_iff bit_and_iff bit_not_iff
      bit_mask_iff dest: bit_imp_le_length)

text \<open>
  Claim C10. For a 32-bit colour \<open>c\<close> and an alpha \<open>a \<le> 0xFF\<close>, the value of
  \<^verbatim>\<open>COLOR_TEXT_ALPHA(c, a)\<close> has the upper 24 bits of \<open>c\<close> (as the bits above bit 7,
  and equally under the mask \<^verbatim>\<open>0xFFFFFF00\<close>) and its low 8 bits are \<open>a\<close>.
\<close>

theorem COLOR_TEXT_ALPHA_rgb_and_alpha:
  assumes "a \<le> 0xFF"
  shows "drop_bit 8 (COLOR_TEXT_ALPHA c a) = drop_bit 8 c
       \<and> COLOR_TEXT_ALPHA c a AND 0xFFFFFF00 = c AND 0xFFFFFF00
       \<and> COLOR_TEXT_ALPHA c a AND 0xFF = a"
proof (intro conjI)
  show "drop_bit 8 (COLOR_TEXT_ALPHA c a) = drop_bit 8 c"
  proof (rule bit_word_eqI)
    fix n
    from assms have "\<not> bit a (8 + n)"
      using alpha_bits_low [of a "8 + n"] by auto
    then show "bit (drop_bit 8 (COLOR_TEXT_ALPHA c a)) n = bit (drop_bit 8 c) n"
      by (simp add: bit_drop_bit_eq bit_COLOR_TEXT_ALPHA)
  qed
  show "COLOR_TEXT_ALPHA c a AND 0xFFFFFF00 = c AND 0xFFFFFF00"
  proof (rule bit_word_eqI)
    fix n
    from assms have "bit a n \<Longrightarrow> n < 8"
      by (rule alpha_bits_low)
    then show "bit (COLOR_TEXT_ALPHA c a AND 0xFFFFFF00) n = bit (c AND 0xFFFFFF00) n"
      unfolding rgb_mask_eq
      by (auto simp add: bit_and_iff bit_not_iff bit_mask_iff bit_COLOR_TEXT_ALPHA)
  qed
  show "COLOR_TEXT_ALPHA c a AND 0xFF = a"
  proof (rule bit_word_eqI)
    fix n
    from assms have "bit a n \<Longrightarrow> n < 8"
      by (rule alpha_bits_low)
    then show "bit (COLOR_TEXT_ALPHA c a AND 0xFF) n = bit a n"
      unfolding alpha_mask_eq
      by (auto simp add: bit_and_iff bit_mask_iff bit_COLOR_TEXT_ALPHA)
  qed
qed

theorem COLOR_TEXT_ALPHA_rgb_and_alpha_witness:
  "(0x80 :: u32) \<le> 0xFF
   \<and> drop_bit 8 (COLOR_TEXT_ALPHA 0x11223344 0x80) = (0x112233 :: u32)
   \<and> COLOR_TEXT_ALPHA 0x11223344 0x80 AND 0xFFFFFF00 = 0x11223300
   \<and> COLOR_TEXT_ALPHA 0x11223344 0x80 AND 0xFF = 0x80"
  using COLOR_TEXT_ALPHA_rgb_and_alpha [of "0x80" "0x11223344"]
  by simp

subsection \<open>The update-pending gate\<close>

text \<open>
  Claim C1. For every animation state and every display state, the gate is true exactly
  when the animation subsystem reports an active animation or \<open>framebuf_dirty\<close> is
  set, and so false exactly when both are false.
\<close>

theorem GFX_DISPLAY_GET_UPDATE_PENDING_value:
  "(fst (GFX_DISPLAY_GET_UPDATE_PENDING ANIM_IS_ACTIVE p_anim p_disp)
      \<longleftrightarrow> ANIM_IS_ACTIVE p_anim \<or> framebuf_dirty p_disp)
   \<and> (\<not> fst (GFX_DISPLAY_GET_UPDATE_PENDING ANIM_IS_ACTIVE p_anim p_disp)
      \<longleftrightarrow> \<not> ANIM_IS_ACTIVE p_anim \<and> \<not> framebuf_dirty p_disp)"
  by (simp add: GFX_DISPLAY_GET_UPDATE_PENDING_def)

text \<open>
  Claim C9. Evaluating the gate leaves the display state as it was: every field, and
  \<open>framebuf_dirty\<close> in particular, has the value it had before.
\<close>

theorem GFX_DISPLAY_GET_UPDATE_PENDING_frame:
  "snd (GFX_DISPLAY_GET_UPDATE_PENDING ANIM_IS_ACTIVE p_anim p_disp) = p_disp
   \<and> framebuf_dirty (snd (GFX_DISPLAY_GET_UPDATE_PENDING ANIM_IS_ACTIVE p_anim p_disp))
       = framebuf_dirty p_disp"
  by (simp add: GFX_DISPLAY_GET_UPDATE_PENDING_def)

subsection \<open>Rounding to single precision\<close>

lemma quotient_of_positive:
  assumes "0 < r" and "quotient_of r = (a, b)"
  shows "0 < a" and "0 < b" and "r = of_int a / of_int b"
proof -
  from assms(2) show b: "0 < b"
    by (rule quotient_of_denom_pos)
  from assms(2) show r: "r = of_int a / of_int b"
    by (rule quotient_of_div)
  from assms(1) b show "0 < a"
    by (simp add: r zero_less_divide_iff)
qed

text \<open>The exponent that \<open>ilog2\<close> finds is not too large: \<open>2 powi ilog2 r\<close> is at most \<open>r\<close>.\<close>

lemma ilog2_le:
  assumes "0 < r"
  shows "2 powi ilog2 r \<le> r"
proof -
  obtain a b where ab: "quotient_of r = (a, b)"
    by (cases "quotient_of r")
  from assms ab have a: "0 < a" and b: "0 < b" and r: "r = of_int a / of_int b"
    by (rule quotient_of_positive)+
  define d where "d = bitlen a - bitlen b"
  show ?thesis
  proof (cases "r < 2 powi d")
    case False
    then show ?thesis
      by (simp add: ilog2_def ab d_def)
  next
    case True
    from a have la: "(2::int) ^ nat (bitlen a - 1) \<le> a"
      using bitlen_bounds [of a] by simp
    from b have lb: "b < 2 ^ nat (bitlen b)"
      using bitlen_bounds [of b] by simp
    from a have pa: "0 < bitlen a"
      using bitlen_eq_zero_iff [of a] bitlen_nonneg [of a] by simp
    from b have pb: "0 < bitlen b"
      using bitlen_eq_zero_iff [of b] bitlen_nonneg [of b] by simp
    have dm: "d - 1 = (bitlen a - 1) - bitlen b"
      by (simp add: d_def)
    have "(2::rat) powi (d - 1) = 2 powi ((bitlen a - 1) - bitlen b)"
      by (simp only: dm)
    also have "\<dots> = 2 powi (bitlen a - 1) / 2 powi bitlen b"
      by (rule power_int_diff) simp
    also have "\<dots> = 2 ^ nat (bitlen a - 1) / 2 ^ nat (bitlen b)"
      using pa pb by (simp add: power_int_def)
    also have "\<dots> \<le> of_int a / 2 ^ nat (bitlen b)"
    proof -
      from la have "(of_int (2 ^ nat (bitlen a - 1)) :: rat) \<le> of_int a"
        by (simp only: of_int_le_iff)
      then show ?thesis
        by (simp add: divide_right_mono)
    qed
    also have "\<dots> \<le> of_int a / of_int b"
    proof -
      from lb have "(of_int b :: rat) \<le> of_int (2 ^ nat (bitlen b))"
        by (simp only: of_int_le_iff less_imp_le)
      with a b show ?thesis
        by (simp add: divide_left_mono)
    qed
    finally have "(2::rat) powi (d - 1) \<le> r"
      by (simp add: r)
    with True show ?thesis
      by (simp add: ilog2_def ab d_def)
  qed
qed

lemma ilog2_gt:
  assumes "0 < r"
  shows "r < 2 powi (ilog2 r + 1)"
proof -
  obtain a b where ab: "quotient_of r = (a, b)"
    by (cases "quotient_of r")
  from assms ab have a: "0 < a" and b: "0 < b" and r: "r = of_int a / of_int b"
    by (rule quotient_of_positive)+
  define d where "d = bitlen a - bitlen b"
  show ?thesis
  proof (cases "r < 2 powi d")
    case True
    then show ?thesis
      by (simp add: ilog2_def ab d_def)
  next
    case False
    from a have la: "a < 2 ^ nat (bitlen a)"
      using bitlen_bounds [of a] by simp
    from b have lb: "(2::int) ^ nat (bitlen b - 1) \<le> b"
      using bitlen_bounds [of b] by simp
    from a have pa: "0 < bitlen a"
      using bitlen_eq_zero_iff [of a] bitlen_nonneg [of a] by simp
    from b have pb: "0 < bitlen b"
      using bitlen_eq_zero_iff [of b] bitlen_nonneg [of b] by simp
    have dm: "d + 1 = bitlen a - (bitlen b - 1)"
      by (simp add: d_def)
    have "r = of_int a / of_int b"
      by (rule r)
    also have "\<dots> < 2 ^ nat (bitlen a) / of_int b"
    proof -
      from la have "(of_int a :: rat) < of_int (2 ^ nat (bitlen a))"
        by (simp only: of_int_less_iff)
      with b show ?thesis
        by (simp add: divide_strict_right_mono)
    qed
    also have "\<dots> \<le> 2 ^ nat (bitlen a) / 2 ^ nat (bitlen b - 1)"
    proof -
      from lb have "(of_int (2 ^ nat (bitlen b - 1)) :: rat) \<le> of_int b"
        by (simp only: of_int_le_iff)
      then have "(2 :: rat) ^ nat (bitlen b - 1) \<le> of_int b"
        by simp
      then show ?thesis
        by (rule divide_left_mono) (use b in simp_all)
    qed
    also have "\<dots> = 2 powi bitlen a / 2 powi (bitlen b - 1)"
      using pa pb by (simp add: power_int_def)
    also have "\<dots> = 2 powi (bitlen a - (bitlen b - 1))"
      by (rule power_int_diff [symmetric]) simp
    also have "\<dots> = 2 powi (d + 1)"
      by (simp only: dm)
    finally show ?thesis
      using False by (simp add: ilog2_def ab d_def)
  qed
qed

text \<open>
  So \<open>f32_round\<close> rounds at the right place: the number it hands to \<open>round_to_even\<close>
  has a significand of 24 bits.
\<close>

lemma f32_significand_range:
  assumes "0 < r"
  shows "2 ^ 23 \<le> r / 2 powi (ilog2 r - 23)" and "r / 2 powi (ilog2 r - 23) < 2 ^ 24"
proof -
  have q: "(2 :: rat) powi (ilog2 r - 23) = 2 powi ilog2 r / 2 ^ 23"
    by (simp add: power_int_diff)
  have p: "(0 :: rat) < 2 powi ilog2 r"
    by (simp add: zero_less_power_int)
  from ilog2_le [OF assms] p show "2 ^ 23 \<le> r / 2 powi (ilog2 r - 23)"
    by (simp add: q field_simps)
  have "(2 :: rat) powi (ilog2 r + 1) = 2 powi ilog2 r * 2"
    by (simp add: power_int_add)
  with ilog2_gt [OF assms] p show "r / 2 powi (ilog2 r - 23) < 2 ^ 24"
    by (simp add: q field_simps)
qed

lemma round_to_even_error: "\<bar>of_int (round_to_even r) - r\<bar> \<le> 1 / 2"
proof -
  have "of_int \<lfloor>r\<rfloor> \<le> r" and "r < of_int \<lfloor>r\<rfloor> + 1"
    by linarith+
  then show ?thesis
    by (auto simp add: round_to_even_def Let_def)
qed

text \<open>Rounding a positive number changes it by at most the fraction \<open>1 / 2 ^ 24\<close> of it.\<close>

lemma f32_round_error:
  assumes "0 < r"
  shows "\<bar>f32_round r - r\<bar> \<le> r / 2 ^ 24"
proof -
  define e where "e = ilog2 r"
  define q :: rat where "q = 2 powi (e - 23)"
  have q: "0 < q"
    by (simp add: q_def zero_less_power_int)
  from assms have fr: "f32_round r = of_int (round_to_even (r / q)) * q"
    by (simp add: f32_round_def e_def q_def Let_def)
  have "f32_round r - r = (of_int (round_to_even (r / q)) - r / q) * q"
    using q by (simp add: fr left_diff_distrib)
  then have "\<bar>f32_round r - r\<bar> = \<bar>of_int (round_to_even (r / q)) - r / q\<bar> * q"
    using q by (simp add: abs_mult)
  also have "\<dots> \<le> 1 / 2 * q"
    using q round_to_even_error [of "r / q"] by (simp only: mult_right_mono less_imp_le)
  also have "\<dots> = 2 powi e / 2 ^ 24"
    by (simp add: q_def power_int_diff)
  also have "\<dots> \<le> r / 2 ^ 24"
    using ilog2_le [OF assms] by (simp add: e_def divide_right_mono)
  finally show ?thesis .
qed

lemma f32_round_0: "f32_round 0 = 0"
  by (simp add: f32_round_def)

text \<open>\<^verbatim>\<open>1.0f / 255.0f\<close> is the float \<open>8421505 / 2 ^ 31\<close>, a little above \<open>1 / 255\<close>.\<close>

lemma f32_div_1_255: "f32_div 1 255 = 8421505 / 2147483648"
  by code_simp

lemma channel_error:
  assumes "n \<le> 255"
  shows "\<bar>f32_mul (of_nat n) (f32_div 1 255) - of_nat n / 255\<bar> \<le> 1 / 2 ^ 23"
proof (cases "n = 0")
  case True
  then show ?thesis
    by (simp add: f32_mul_def f32_round_0)
next
  case False
  define p :: rat where "p = of_nat n * (8421505 / 2147483648)"
  from False have "0 < p"
    by (simp add: p_def)
  then have "\<bar>f32_round p - p\<bar> \<le> p / 2 ^ 24"
    by (rule f32_round_error)
  then have ab: "\<bar>f32_round p - p\<bar> \<le> p / 16777216"
    by simp
  have near: "f32_round p - p \<le> p / 16777216" "p - f32_round p \<le> p / 16777216"
    using ab by linarith+
  from assms have hi: "(of_nat n :: rat) \<le> 255"
    by (metis of_nat_le_iff of_nat_numeral)
  have lo: "(0::rat) \<le> of_nat n"
    by simp
  have "f32_round p - of_nat n / 255 \<le> 1 / 8388608"
    and "of_nat n / 255 - f32_round p \<le> 1 / 8388608"
    using near hi lo unfolding p_def by linarith+
  then have "\<bar>f32_round p - of_nat n / 255\<bar> \<le> 1 / 8388608"
    by linarith
  then have "\<bar>f32_round p - of_nat n / 255\<bar> \<le> 1 / 2 ^ 23"
    by simp
  then show ?thesis
    by (simp add: f32_mul_def f32_div_1_255 p_def)
qed

text \<open>
  A float is an integer times a power of two. A byte divided by 255 is such a number
  only when the byte is 0 or 255, so the product of the macros is exact for these two
  bytes and for no other.
\<close>

lemma f32_round_dyadic: "\<exists>m k. f32_round r = of_int m * 2 powi k"
proof (cases "r = 0")
  case True
  then have "f32_round r = of_int 0 * 2 powi 0"
    by (simp add: f32_round_def)
  then show ?thesis
    by blast
next
  case False
  then have "f32_round r = of_int (round_to_even (r / 2 powi (ilog2 \<bar>r\<bar> - 23)))
      * 2 powi (ilog2 \<bar>r\<bar> - 23)"
    by (simp add: f32_round_def Let_def)
  then show ?thesis
    by blast
qed

lemma coprime_255_power_2: "coprime (255 :: int) (2 ^ j)"
proof -
  have "coprime (255 :: int) 2"
    by simp
  then show ?thesis
    by simp
qed

lemma dyadic_eq_byte_fraction:
  assumes "of_int m * 2 powi k = (of_nat n / 255 :: rat)"
  shows "255 dvd int n"
proof (cases "0 \<le> k")
  case True
  then have "(2 :: rat) powi k = of_int (2 ^ nat k)"
    by (simp add: power_int_def)
  with assms have "(of_int (255 * (m * 2 ^ nat k)) :: rat) = of_int (int n)"
    by simp
  then have "255 * (m * 2 ^ nat k) = int n"
    by (simp only: of_int_eq_iff)
  then show ?thesis
    by (metis dvd_triv_left)
next
  case False
  then have "(2 :: rat) powi k = 1 / of_int (2 ^ nat (- k))"
    by (simp add: power_int_def field_simps)
  with assms have "(of_int (255 * m) :: rat) = of_int (int n * 2 ^ nat (- k))"
    by (simp add: field_simps)
  then have "255 * m = int n * 2 ^ nat (- k)"
    by (simp only: of_int_eq_iff)
  then have "255 dvd int n * 2 ^ nat (- k)"
    by (metis dvd_triv_left)
  then show ?thesis
    using coprime_255_power_2 [of "nat (- k)"] by (simp add: coprime_dvd_mult_left_iff)
qed

lemma f32_mul_255: "f32_mul 255 (f32_div 1 255) = 1"
  by code_simp

lemma channel_exact_iff:
  assumes "n \<le> 255"
  shows "f32_mul (of_nat n) (f32_div 1 255) = of_nat n / 255 \<longleftrightarrow> n = 0 \<or> n = 255"
proof
  assume eq: "f32_mul (of_nat n) (f32_div 1 255) = of_nat n / 255"
  obtain m k where "f32_mul (of_nat n) (f32_div 1 255) = of_int m * 2 powi k"
    unfolding f32_mul_def using f32_round_dyadic by blast
  with eq have "255 dvd int n"
    by (simp add: dyadic_eq_byte_fraction)
  then have "255 dvd n"
    by presburger
  with assms show "n = 0 \<or> n = 255"
    by (auto elim!: dvdE)
next
  assume "n = 0 \<or> n = 255"
  then show "f32_mul (of_nat n) (f32_div 1 255) = of_nat n / 255"
    by (auto simp add: f32_mul_255) (simp add: f32_mul_def f32_round_0)
qed

subsection \<open>COLOR_HEX_TO_FLOAT and gfx_display_set_alpha\<close>

text \<open>The operand \<^verbatim>\<open>(hex >> k) & 0xFF\<close> is the byte of \<open>hex\<close> that starts at bit \<open>k\<close>.\<close>

lemma unat_channel:
  fixes hex :: u32
  shows "unat (drop_bit k hex AND 0xFF) = unat hex div 2 ^ k mod 256"
proof -
  have "drop_bit k hex AND 0xFF = take_bit 8 (drop_bit k hex)"
    by (simp add: alpha_mask_eq take_bit_eq_mask)
  then have "unat (drop_bit k hex AND 0xFF) = take_bit 8 (drop_bit k (unat hex))"
    by (simp only: unsigned_take_bit_eq unat_drop_bit_eq)
  then show ?thesis
    by (simp add: take_bit_eq_mod drop_bit_eq_div)
qed

lemma set_alpha_of_hex_to_float:
  "gfx_display_set_alpha (COLOR_HEX_TO_FLOAT C a0) A =
     [HEX_R C, HEX_G C, HEX_B C, A,
      HEX_R C, HEX_G C, HEX_B C, A,
      HEX_R C, HEX_G C, HEX_B C, A,
      HEX_R C, HEX_G C, HEX_B C, A]"
  by (simp add: gfx_display_set_alpha_def COLOR_HEX_TO_FLOAT_def)

text \<open>
  Claim C2, as stated, fails. For the colour \<^verbatim>\<open>0x330000\<close> the red byte is 51 and
  \<open>51 / 255\<close> is \<open>1 / 5\<close>. The macro multiplies 51 by the float \<^verbatim>\<open>1.0f / 255.0f\<close> and
  rounds the product: channel 0 of the array is \<open>6710887 / 2 ^ 25\<close>, which is neither
  \<open>1 / 5\<close> nor the float nearest to \<open>1 / 5\<close>.
\<close>

theorem hex_to_float_exact_counterexample:
  "gfx_display_set_alpha (COLOR_HEX_TO_FLOAT 0x330000 1) 1 ! 0 = 6710887 / 33554432
   \<and> gfx_display_set_alpha (COLOR_HEX_TO_FLOAT 0x330000 1) 1 ! 0 \<noteq> 51 / 255
   \<and> gfx_display_set_alpha (COLOR_HEX_TO_FLOAT 0x330000 1) 1 ! 0 \<noteq> f32_round (51 / 255)"
  by code_simp

text \<open>
  Claim C2, amended. For every colour \<open>C\<close> and every alpha \<open>A\<close>, converting \<open>C\<close> with
  \<^verbatim>\<open>COLOR_HEX_TO_FLOAT\<close> (with any alpha \<open>a0\<close>) and then applying
  \<^verbatim>\<open>gfx_display_set_alpha\<close> with \<open>A\<close> gives sixteen floats, four times the quadruple
  R, G, B, \<open>A\<close>; R, G and B are the single-precision products of the bytes of \<open>C\<close> at
  bits 16-23, 8-15 and 0-7 with the float \<^verbatim>\<open>1.0f / 255.0f\<close>; each is within
  \<open>1 / 2 ^ 23\<close> of its byte divided by 255, and equal to it only when the byte is 0 or
  255.
\<close>

theorem hex_to_float_then_set_alpha:
  "gfx_display_set_alpha (COLOR_HEX_TO_FLOAT C a0) A =
     [HEX_R C, HEX_G C, HEX_B C, A,
      HEX_R C, HEX_G C, HEX_B C, A,
      HEX_R C, HEX_G C, HEX_B C, A,
      HEX_R C, HEX_G C, HEX_B C, A]
   \<and> HEX_R C = f32_mul (of_nat (unat C div 2 ^ 16 mod 256)) (f32_div 1 255)
   \<and> HEX_G C = f32_mul (of_nat (unat C div 2 ^ 8 mod 256)) (f32_div 1 255)
   \<and> HEX_B C = f32_mul (of_nat (unat C mod 256)) (f32_div 1 255)
   \<and> \<bar>HEX_R C - of_nat (unat C div 2 ^ 16 mod 256) / 255\<bar> \<le> 1 / 2 ^ 23
   \<and> \<bar>HEX_G C - of_nat (unat C div 2 ^ 8 mod 256) / 255\<bar> \<le> 1 / 2 ^ 23
   \<and> \<bar>HEX_B C - of_nat (unat C mod 256) / 255\<bar> \<le> 1 / 2 ^ 23
   \<and> (HEX_R C = of_nat (unat C div 2 ^ 16 mod 256) / 255
        \<longleftrightarrow> unat C div 2 ^ 16 mod 256 = 0 \<or> unat C div 2 ^ 16 mod 256 = 255)
   \<and> (HEX_G C = of_nat (unat C div 2 ^ 8 mod 256) / 255
        \<longleftrightarrow> unat C div 2 ^ 8 mod 256 = 0 \<or> unat C div 2 ^ 8 mod 256 = 255)
   \<and> (HEX_B C = of_nat (unat C mod 256) / 255
        \<longleftrightarrow> unat C mod 256 = 0 \<or> unat C mod 256 = 255)"
proof (intro conjI)
  show "gfx_display_set_alpha (COLOR_HEX_TO_FLOAT C a0) A =
     [HEX_R C, HEX_G C, HEX_B C, A,
      HEX_R C, HEX_G C, HEX_B C, A,
      HEX_R C, HEX_G C, HEX_B C, A,
      HEX_R C, HEX_G C, HEX_B C, A]"
    by (rule set_alpha_of_hex_to_float)
  show r: "HEX_R C = f32_mul (of_nat (unat C div 2 ^ 16 mod 256)) (f32_div 1 255)"
    by (simp only: HEX_R_def unat_channel)
  show g: "HEX_G C = f32_mul (of_nat (unat C div 2 ^ 8 mod 256)) (f32_div 1 255)"
    by (simp only: HEX_G_def unat_channel)
  have "unat C div 2 ^ 0 mod 256 = unat C mod 256"
    by simp
  then show b: "HEX_B C = f32_mul (of_nat (unat C mod 256)) (f32_div 1 255)"
    by (simp only: HEX_B_def unat_channel)
  have rb: "unat C div 2 ^ 16 mod 256 \<le> 255"
    using mod_less_divisor [of 256 "unat C div 2 ^ 16"] by simp
  then show "\<bar>HEX_R C - of_nat (unat C div 2 ^ 16 mod 256) / 255\<bar> \<le> 1 / 2 ^ 23"
    unfolding r by (rule channel_error)
  have gb: "unat C div 2 ^ 8 mod 256 \<le> 255"
    using mod_less_divisor [of 256 "unat C div 2 ^ 8"] by simp
  then show "\<bar>HEX_G C - of_nat (unat C div 2 ^ 8 mod 256) / 255\<bar> \<le> 1 / 2 ^ 23"
    unfolding g by (rule channel_error)
  have bb: "unat C mod 256 \<le> 255"
    using mod_less_divisor [of 256 "unat C"] by simp
  then show "\<bar>HEX_B C - of_nat (unat C mod 256) / 255\<bar> \<le> 1 / 2 ^ 23"
    unfolding b by (rule channel_error)
  from rb show "HEX_R C = of_nat (unat C div 2 ^ 16 mod 256) / 255
      \<longleftrightarrow> unat C div 2 ^ 16 mod 256 = 0 \<or> unat C div 2 ^ 16 mod 256 = 255"
    unfolding r by (rule channel_exact_iff)
  from gb show "HEX_G C = of_nat (unat C div 2 ^ 8 mod 256) / 255
      \<longleftrightarrow> unat C div 2 ^ 8 mod 256 = 0 \<or> unat C div 2 ^ 8 mod 256 = 255"
    unfolding g by (rule channel_exact_iff)
  from bb show "HEX_B C = of_nat (unat C mod 256) / 255
      \<longleftrightarrow> unat C mod 256 = 0 \<or> unat C mod 256 = 255"
    unfolding b by (rule channel_exact_iff)
qed

theorem hex_to_float_then_set_alpha_witness:
  "gfx_display_set_alpha (COLOR_HEX_TO_FLOAT 0x336699 0) (1 / 2) =
     [6710887 / 33554432, 6710887 / 16777216, 5033165 / 8388608, 1 / 2,
      6710887 / 33554432, 6710887 / 16777216, 5033165 / 8388608, 1 / 2,
      6710887 / 33554432, 6710887 / 16777216, 5033165 / 8388608, 1 / 2,
      6710887 / 33554432, 6710887 / 16777216, 5033165 / 8388608, 1 / 2]
   \<and> \<bar>(6710887 / 33554432 :: rat) - 51 / 255\<bar> \<le> 1 / 2 ^ 23"
proof -
  have r: "HEX_R 0x336699 = 6710887 / 33554432"
    by code_simp
  have g: "HEX_G 0x336699 = 6710887 / 16777216"
    by code_simp
  have b: "HEX_B 0x336699 = 5033165 / 8388608"
    by code_simp
  have c: "unat (0x336699 :: u32) div 2 ^ 16 mod 256 = 51"
    by simp
  from hex_to_float_then_set_alpha [of "0x336699" 0 "1 / 2"] show ?thesis
    unfolding r g b c by simp
qed

section \<open>Properties of the functions modelled from the spec\<close>

subsection \<open>Driver selection\<close>

lemma first_compatible_None:
  assumes "\<forall>drv \<in> set drivers. \<not> probe drv video_is_threaded"
  shows "first_compatible probe video_is_threaded drivers = None"
  using assms by (induction drivers) simp_all

lemma first_compatible_Some:
  assumes "first_compatible probe video_is_threaded drivers = Some drv"
  shows "drv \<in> set drivers \<and> probe drv video_is_threaded"
  using assms by (induction drivers) (auto split: if_splits)

lemma gfx_display_init_first_driver_binds:
  assumes "gfx_display_init_first_driver drivers probe p_disp video_is_threaded = (True, p')"
  shows "\<exists>drv \<in> set drivers. probe drv video_is_threaded \<and> p' = p_disp\<lparr>dispctx := Some drv\<rparr>"
proof (cases "first_compatible probe video_is_threaded drivers")
  case None
  with assms show ?thesis
    by (simp add: gfx_display_init_first_driver_def)
next
  case (Some drv)
  with assms have "p' = p_disp\<lparr>dispctx := Some drv\<rparr>"
    by (simp add: gfx_display_init_first_driver_def)
  with first_compatible_Some [OF Some] show ?thesis
    by blast
qed

text \<open>
  Claim C3. When no driver of the table passes its probe,
  \<^verbatim>\<open>gfx_display_init_first_driver\<close> returns failure and the display state it leaves
  has no bound driver: it is the state it was given with \<open>dispctx\<close> cleared, whatever
  \<open>dispctx\<close> held before, and every other field as it was.
\<close>

theorem gfx_display_init_first_driver_no_backend:
  assumes "\<forall>drv \<in> set drivers. \<not> probe drv video_is_threaded"
  shows "gfx_display_init_first_driver drivers probe p_disp video_is_threaded
           = (False, p_disp\<lparr>dispctx := None\<rparr>)
       \<and> \<not> fst (gfx_display_init_first_driver drivers probe p_disp video_is_threaded)
       \<and> dispctx (snd (gfx_display_init_first_driver drivers probe p_disp video_is_threaded))
           = None"
proof -
  from assms have "first_compatible probe video_is_threaded drivers = None"
    by (rule first_compatible_None)
  then show ?thesis
    by (simp add: gfx_display_init_first_driver_def)
qed

theorem gfx_display_init_first_driver_no_backend_witness:
  "\<not> (\<lambda>drv threaded. driver_type drv = GFX_VIDEO_DRIVER_OPENGL)
       \<lparr>get_default_mvp = \<lambda>_. None, get_default_vertices = [],
       get_default_tex_coords = [], driver_type = GFX_VIDEO_DRIVER_VULKAN,
       ident = ''vulkan'', handles_transform = False\<rparr> True
   \<and> gfx_display_init_first_driver
      [\<lparr>get_default_mvp = \<lambda>_. None, get_default_vertices = [],
       get_default_tex_coords = [], driver_type = GFX_VIDEO_DRIVER_VULKAN,
       ident = ''vulkan'', handles_transform = False\<rparr>]
      (\<lambda>drv threaded. driver_type drv = GFX_VIDEO_DRIVER_OPENGL)
      \<lparr>dispctx = Some \<lparr>get_default_mvp = \<lambda>_. None, get_default_vertices = [],
         get_default_tex_coords = [], driver_type = GFX_VIDEO_DRIVER_GDI,
         ident = ''gdi'', handles_transform = False\<rparr>,
       dispca = (), framebuf_pitch = 7680, framebuf_width = 1920, framebuf_height = 1080,
       header_height = 0, menu_driver_id = MENU_DRIVER_ID_RGUI, has_windowed = False,
       msg_force = False, framebuf_dirty = True\<rparr>
      True
     = (False,
      \<lparr>dispctx = None,
       dispca = (), framebuf_pitch = 7680, framebuf_width = 1920, framebuf_height = 1080,
       header_height = 0, menu_driver_id = MENU_DRIVER_ID_RGUI, has_windowed = False,
       msg_force = False, framebuf_dirty = True\<rparr>)"
  using gfx_display_init_first_driver_no_backend
    [of "[\<lparr>get_default_mvp = \<lambda>_. None, get_default_vertices = [],
       get_default_tex_coords = [], driver_type = GFX_VIDEO_DRIVER_VULKAN,
       ident = ''vulkan'', handles_transform = False\<rparr>]"
      "\<lambda>drv threaded. driver_type drv = GFX_VIDEO_DRIVER_OPENGL" True
      "\<lparr>dispctx = Some \<lparr>get_default_mvp = \<lambda>_. None, get_default_vertices = [],
         get_default_tex_coords = [], driver_type = GFX_VIDEO_DRIVER_GDI,
         ident = ''gdi'', handles_transform = False\<rparr>,
       dispca = (), framebuf_pitch = 7680, framebuf_width = 1920, framebuf_height = 1080,
       header_height = 0, menu_driver_id = MENU_DRIVER_ID_RGUI, has_windowed = False,
       msg_force = False, framebuf_dirty = True\<rparr>"]
  by simp

subsection \<open>The DPI scale\<close>

text \<open>\<open>f32_round\<close> is the rounding to 24 bits.\<close>

lemma f32_round_is_fp_round: "f32_round r = fp_round 24 r"
  by (simp add: f32_round_def fp_round_def)

text \<open>\<open>isqrt\<close> is the square root rounded down.\<close>

lemma isqrt_bounds:
  assumes "0 \<le> n"
  shows "0 \<le> isqrt n \<and> isqrt n * isqrt n \<le> n \<and> n < (isqrt n + 1) * (isqrt n + 1)"
  using assms
proof (induction n rule: isqrt.induct)
  case (1 n)
  show ?case
  proof (cases "n < 4")
    case True
    with \<open>0 \<le> n\<close> show ?thesis
      by (simp add: isqrt.simps [of n])
  next
    case False
    define s where "s = isqrt (n div 4)"
    from False \<open>0 \<le> n\<close> have "0 \<le> n div 4"
      by simp
    with False "1.IH" have ih: "0 \<le> s" "s * s \<le> n div 4" "n div 4 < (s + 1) * (s + 1)"
      by (simp_all add: s_def)
    have d: "4 * (n div 4) \<le> n" "n \<le> 4 * (n div 4) + 3"
      by presburger+
    from ih(3) have up: "n div 4 + 1 \<le> s * s + 2 * s + 1"
      by (simp add: algebra_simps)
    show ?thesis
    proof (cases "(2 * s + 1) * (2 * s + 1) \<le> n")
      case True
      with False have v: "isqrt n = 2 * s + 1"
        by (simp add: isqrt.simps [of n] s_def Let_def)
      from True ih(1) d up show ?thesis
        unfolding v by (simp add: algebra_simps)
    next
      case no: False
      with False have v: "isqrt n = 2 * s"
        by (simp add: isqrt.simps [of n] s_def Let_def)
      from no ih d show ?thesis
        unfolding v by (simp add: algebra_simps)
    qed
  qed
qed

text \<open>
  The diagonal of 1920 by 1080 is the square root of 4852800. In double precision
  \<open>fp_sqrt\<close> gives \<open>4844244096833219 / 2 ^ 41\<close>, whose last place is \<open>1 / 2 ^ 41\<close>, and
  in single precision \<open>2255777 / 2 ^ 10\<close>, whose last place is \<open>1 / 2 ^ 12\<close>. Each is
  within half a unit of its last place of the real square root, so each is the
  correctly rounded root; and the first is the constant of the header.
\<close>

lemma fp_sqrt_4852800:
  "fp_sqrt 53 4852800 = 4844244096833219 / 2199023255552
   \<and> fp_sqrt 24 4852800 = 2255777 / 1024"
  by code_simp

lemma sqrt_4852800_double:
  "\<bar>sqrt 4852800 - 4844244096833219 / 2199023255552\<bar> < 1 / 2 ^ 42"
proof -
  have lo: "(4844244096833219 / 2199023255552 - 1 / 4398046511104 :: real) < sqrt 4852800"
    by (rule real_less_rsqrt) (simp add: power2_eq_square)
  have hi: "sqrt 4852800 < (4844244096833219 / 2199023255552 + 1 / 4398046511104 :: real)"
    by (rule real_less_lsqrt) (simp_all add: power2_eq_square)
  from lo hi have "\<bar>sqrt 4852800 - 4844244096833219 / 2199023255552\<bar> < 1 / 4398046511104"
    by linarith
  then show ?thesis
    by simp
qed

lemma sqrt_4852800_single: "\<bar>sqrt 4852800 - 2255777 / 1024\<bar> < 1 / 2 ^ 13"
proof -
  have lo: "(2255777 / 1024 - 1 / 8192 :: real) < sqrt 4852800"
    by (rule real_less_rsqrt) (simp add: power2_eq_square)
  have hi: "sqrt 4852800 < (2255777 / 1024 + 1 / 8192 :: real)"
    by (rule real_less_lsqrt) (simp_all add: power2_eq_square)
  from lo hi have "\<bar>sqrt 4852800 - 2255777 / 1024\<bar> < 1 / 8192"
    by linarith
  then show ?thesis
    by simp
qed

lemma DIAGONAL_PIXELS_1080P_value:
  "DIAGONAL_PIXELS_1080P = 4844244096833219 / 2199023255552"
  by code_simp


text \<open>Other sizes give other scales: 1280 by 720 gives two thirds, as a float.\<close>

lemma gfx_display_get_dpi_scale_internal_720p:
  "gfx_display_get_dpi_scale_internal 24 53 1280 720 = 5592405 / 8388608
   \<and> gfx_display_get_dpi_scale_internal 24 53 3840 2160 = 2"
  by code_simp

subsection \<open>The rotation matrix\<close>

lemma matrix_4x4_rotate_z_0:
  "matrix_4x4_rotate_z 0 = ((1, 0, 0, 0), (0, 1, 0, 0), (0, 0, 1, 0), (0, 0, 0, 1))"
  by (simp add: matrix_4x4_rotate_z_def)

lemma matrix_4x4_multiply_identity:
  "matrix_4x4_multiply ((1, 0, 0, 0), (0, 1, 0, 0), (0, 0, 1, 0), (0, 0, 0, 1)) b = b"
proof -
  obtain r0 r1 r2 r3 where b: "b = (r0, r1, r2, r3)"
    by (cases b)
  obtain a0 a1 a2 a3 where r0: "r0 = (a0, a1, a2, a3)"
    by (cases r0)
  obtain b0 b1 b2 b3 where r1: "r1 = (b0, b1, b2, b3)"
    by (cases r1)
  obtain c0 c1 c2 c3 where r2: "r2 = (c0, c1, c2, c3)"
    by (cases r2)
  obtain d0 d1 d2 d3 where r3: "r3 = (d0, d1, d2, d3)"
    by (cases r3)
  show ?thesis
    by (simp add: b r0 r1 r2 r3)
qed

text \<open>
  Claim C8. With a bound driver that supplies its default matrix, a call of
  \<^verbatim>\<open>gfx_display_rotate_z\<close> with rotation 0 and scaling disabled leaves in the caller's
  matrix the identity composed with that default, which is the default itself, whatever
  the matrix held before.
\<close>

theorem gfx_display_rotate_z_no_rotation:
  assumes "dispctx p_disp = Some drv"
    and "get_default_mvp drv data = Some mvp"
    and "rotation draw = 0"
    and "\<not> scale_enable draw"
  shows "matrix (gfx_display_rotate_z p_disp draw data) = mvp"
proof -
  have "matrix_4x4_multiply (matrix_4x4_rotate_z (of_rat 0)) mvp = mvp"
    by (simp only: of_rat_0 matrix_4x4_rotate_z_0 matrix_4x4_multiply_identity)
  with assms show ?thesis
    by (simp add: gfx_display_rotate_z_def del: matrix_4x4_multiply.simps)
qed

theorem gfx_display_rotate_z_no_rotation_witness:
  "dispctx \<lparr>dispctx = Some \<lparr>get_default_mvp = \<lambda>_. Some ((2, 0, 0, - 1), (0, - 2, 0, 1), (0, 0, 1, 0), (0, 0, 0, 1)),
         get_default_vertices = [], get_default_tex_coords = [],
         driver_type = GFX_VIDEO_DRIVER_OPENGL, ident = ''gl'',
         handles_transform = False\<rparr>,
       dispca = (), framebuf_pitch = 7680, framebuf_width = 1920, framebuf_height = 1080,
       header_height = 0, menu_driver_id = MENU_DRIVER_ID_RGUI, has_windowed = False,
       msg_force = False, framebuf_dirty = True\<rparr>
     = Some \<lparr>get_default_mvp = \<lambda>_. Some ((2, 0, 0, - 1), (0, - 2, 0, 1), (0, 0, 1, 0), (0, 0, 0, 1)),
       get_default_vertices = [], get_default_tex_coords = [],
       driver_type = GFX_VIDEO_DRIVER_OPENGL, ident = ''gl'',
       handles_transform = False\<rparr>
   \<and> get_default_mvp \<lparr>get_default_mvp = \<lambda>_. Some ((2, 0, 0, - 1), (0, - 2, 0, 1), (0, 0, 1, 0), (0, 0, 0, 1)),
       get_default_vertices = [], get_default_tex_coords = [],
       driver_type = GFX_VIDEO_DRIVER_OPENGL, ident = ''gl'',
       handles_transform = False\<rparr> 0
     = Some ((2, 0, 0, - 1), (0, - 2, 0, 1), (0, 0, 1, 0), (0, 0, 0, 1))
   \<and> rotation \<lparr>matrix = ((5, 6, 7, 8), (0, 0, 0, 0), (1, 1, 1, 1), (9, 9, 9, 9)),
       rotation = 0, scale_x = 3, scale_y = 3, scale_z = 1, scale_enable = False\<rparr> = 0
   \<and> \<not> scale_enable \<lparr>matrix = ((5, 6, 7, 8), (0, 0, 0, 0), (1, 1, 1, 1), (9, 9, 9, 9)),
       rotation = 0, scale_x = 3, scale_y = 3, scale_z = 1, scale_enable = False\<rparr>
   \<and> matrix (gfx_display_rotate_z
        \<lparr>dispctx = Some \<lparr>get_default_mvp = \<lambda>_. Some ((2, 0, 0, - 1), (0, - 2, 0, 1), (0, 0, 1, 0), (0, 0, 0, 1)),
         get_default_vertices = [], get_default_tex_coords = [],
         driver_type = GFX_VIDEO_DRIVER_OPENGL, ident = ''gl'',
         handles_transform = False\<rparr>,
       dispca = (), framebuf_pitch = 7680, framebuf_width = 1920, framebuf_height = 1080,
       header_height = 0, menu_driver_id = MENU_DRIVER_ID_RGUI, has_windowed = False,
       msg_force = False, framebuf_dirty = True\<rparr>
        \<lparr>matrix = ((5, 6, 7, 8), (0, 0, 0, 0), (1, 1, 1, 1), (9, 9, 9, 9)),
       rotation = 0, scale_x = 3, scale_y = 3, scale_z = 1, scale_enable = False\<rparr>
        0)
     = ((2, 0, 0, - 1), (0, - 2, 0, 1), (0, 0, 1, 0), (0, 0, 0, 1))"
  using gfx_display_rotate_z_no_rotation
    [of "\<lparr>dispctx = Some \<lparr>get_default_mvp = \<lambda>_. Some ((2, 0, 0, - 1), (0, - 2, 0, 1), (0, 0, 1, 0), (0, 0, 0, 1)),
         get_default_vertices = [], get_default_tex_coords = [],
         driver_type = GFX_VIDEO_DRIVER_OPENGL, ident = ''gl'',
         handles_transform = False\<rparr>,
       dispca = (), framebuf_pitch = 7680, framebuf_width = 1920, framebuf_height = 1080,
       header_height = 0, menu_driver_id = MENU_DRIVER_ID_RGUI, has_windowed = False,
       msg_force = False, framebuf_dirty = True\<rparr>"
      "\<lparr>get_default_mvp = \<lambda>_. Some ((2, 0, 0, - 1), (0, - 2, 0, 1), (0, 0, 1, 0), (0, 0, 0, 1)),
       get_default_vertices = [], get_default_tex_coords = [],
       driver_type = GFX_VIDEO_DRIVER_OPENGL, ident = ''gl'',
       handles_transform = False\<rparr>"
      0
      "((2, 0, 0, - 1), (0, - 2, 0, 1), (0, 0, 1, 0), (0, 0, 0, 1))"
      "\<lparr>matrix = ((5, 6, 7, 8), (0, 0, 0, 0), (1, 1, 1, 1), (9, 9, 9, 9)),
       rotation = 0, scale_x = 3, scale_y = 3, scale_z = 1, scale_enable = False\<rparr>"]
  by simp

end
